theory Spec2Isabelle
  imports Main
begin

section \<open>The script as a function from its inputs to the host calls it issues\<close>

text \<open>
  \<^verbatim>\<open>pyfbx_render.py\<close> drives a host application (\<^verbatim>\<open>bpy\<close>) that is not part of the
  repository. The embedding therefore keeps the host opaque: a run of the script is the
  list of calls and attribute assignments it issues to the host, in program order,
  together with the way the run ends. Whatever the script reads back from the host
  (the objects that iterating \<^verbatim>\<open>scene.objects\<close> yields, the value of
  \<^verbatim>\<open>cam_data.angle\<close>, whether \<^verbatim>\<open>open(save_path, 'w')\<close> succeeds, what
  \<^verbatim>\<open>argparse\<close> returns) is an input, collected in the record \<open>env\<close>. Reads
  of host attributes (\<^verbatim>\<open>scene.render\<close>, \<^verbatim>\<open>world.node_tree\<close>, \<^verbatim>\<open>nodes["Background"]\<close>)
  are not entries of the run. Host calls are taken to return normally; the script has
  no handler for them.
\<close>

subsection \<open>Values\<close>

text \<open>
  Floating-point values stay symbolic: a literal is kept as the source writes it,
  \<^verbatim>\<open>radians(x)\<close> and the product of \<^verbatim>\<open>*=\<close> are left unevaluated. No numeric
  property of a float is used anywhere.
\<close>

datatype pyfloat =
    Float_lit string
  | Radians pyfloat
  | Fmul pyfloat pyfloat

text \<open>
  The host objects the script holds a reference to. \<open>Scene_object obj\<close> is an object
  yielded by \<^verbatim>\<open>for obj in scene.objects\<close>; the others are named after the source's
  variables (\<^verbatim>\<open>scene\<close>, \<^verbatim>\<open>render\<close>, \<^verbatim>\<open>cycles\<close>, \<^verbatim>\<open>cam_data\<close>, \<^verbatim>\<open>cam_ob\<close>,
  \<^verbatim>\<open>world\<close>, \<^verbatim>\<open>node_bg\<close>, \<^verbatim>\<open>node_env\<close>) or the expression that denotes them.
\<close>

datatype 'o ref =
    Scene_object 'o
  | Scene
  | Scene_render
  | Scene_cycles
  | Image_settings
  | Cam_data
  | Cam_ob
  | World
  | World_cycles
  | World_cycles_visibility
  | Node_bg
  | Node_env
  | Loaded_image
  | Node_input "'o ref" string
  | Node_output "'o ref" string

datatype 'o pyval =
    Py_none
  | Py_bool bool
  | Py_int int
  | Py_str string
  | Py_float pyfloat
  | Py_ref "'o ref"
  | Py_tuple "'o pyval list"

datatype message =
    Cannot_save_to_path string
  | Error_fbx_path_not_given
  | Batch_job_finished

text \<open>
  One entry of the run: \<open>Setattr r a v\<close> is the assignment \<^verbatim>\<open>r.a = v\<close>;
  \<open>Invoke f args kwargs\<close> is the call \<^verbatim>\<open>f(*args, **kwargs)\<close>, with \<open>f\<close> the callee as
  the source writes it and the keyword arguments in source order.
\<close>

datatype 'o call =
    Setattr "'o ref" string "'o pyval"
  | Invoke string "'o pyval list" "(string \<times> 'o pyval) list"
  | Print message
  | Print_help
  | Print_exc

datatype error = UnboundLocalError | SystemExit

datatype outcome = Returned | Raised error

subsection \<open>Command-line values and the environment\<close>

text \<open>The namespace \<^verbatim>\<open>argparse\<close> returns: every option defaults to \<^verbatim>\<open>None\<close>.\<close>

record args =
  args_fbx_path :: "string option"
  args_hdr_path :: "string option"
  args_save_path :: "string option"
  args_render_path :: "string option"
  args_size_x :: "int option"
  args_size_y :: "int option"
  args_samples :: "int option"

text \<open>
  \<open>parse_args\<close> stands for \<^verbatim>\<open>parser.parse_args\<close> of the standard library, \<open>None\<close>
  being its \<^verbatim>\<open>SystemExit\<close>. \<open>open_w p\<close> tells whether \<^verbatim>\<open>open(p, 'w')\<close> followed by
  \<^verbatim>\<open>f.close()\<close> completes without raising.
\<close>

record 'o env =
  scene_objects :: "'o list"
  cam_data_angle :: pyfloat
  open_w :: "string \<Rightarrow> bool"
  parse_args :: "string list \<Rightarrow> args option"

text \<open>Python truthiness of an optional string and of an optional integer.\<close>

fun truthy_str :: "string option \<Rightarrow> bool" where
  "truthy_str None = False"
| "truthy_str (Some s) = (s \<noteq> [])"

fun truthy_int :: "int option \<Rightarrow> bool" where
  "truthy_int None = False"
| "truthy_int (Some n) = (n \<noteq> 0)"

fun str_val :: "string option \<Rightarrow> 'o pyval" where
  "str_val None = Py_none"
| "str_val (Some s) = Py_str s"

fun int_val :: "int option \<Rightarrow> 'o pyval" where
  "int_val None = Py_none"
| "int_val (Some n) = Py_int n"

subsection \<open>\<^verbatim>\<open>render_hdr_set\<close> (lines 51 to 72)\<close>

definition render_hdr_set :: "'o ref \<Rightarrow> string option \<Rightarrow> 'o call list" where
  "render_hdr_set scene hdr_path =
     [Invoke ''bpy.data.worlds.new'' [] [(''name'', Py_str ''World'')],
      Setattr scene ''world'' (Py_ref World),
      Setattr World ''use_nodes'' (Py_bool True),
      Setattr (Node_input Node_bg ''Strength'') ''default_value'' (Py_float (Float_lit ''1.5'')),
      Invoke ''nodes.new'' [] [(''type'', Py_str ''ShaderNodeTexEnvironment'')],
      Invoke ''bpy.data.images.load'' [str_val hdr_path] [],
      Setattr Node_env ''image'' (Py_ref Loaded_image),
      Setattr Node_env ''projection'' (Py_str ''MIRROR_BALL''),
      Invoke ''links.new''
        [Py_ref (Node_output Node_env ''Color''), Py_ref (Node_input Node_bg ''Color'')] [],
      Setattr World_cycles ''sample_as_light'' (Py_bool True),
      Setattr World_cycles ''sample_map_resolution'' (Py_int 512),
      Setattr World_cycles_visibility ''camera'' (Py_bool False)]"

subsection \<open>\<^verbatim>\<open>render\<close> (lines 75 to 148)\<close>

text \<open>
  The local variable \<^verbatim>\<open>ok\<close> is a \<open>bool option\<close>, \<open>None\<close> while it is unbound: the
  source binds it on the success branch of the \<^verbatim>\<open>try\<close> only, and testing an unbound
  local raises \<^verbatim>\<open>UnboundLocalError\<close>.
\<close>

definition render ::
  "'o env \<Rightarrow> string option \<Rightarrow> string option \<Rightarrow> int option \<Rightarrow> int option \<Rightarrow> int option \<Rightarrow>
   string option \<Rightarrow> string option \<Rightarrow> 'o call list \<times> outcome" where
  "render E fbx_path hdr_path size_x size_y samples save_path render_path =
    (let t = [Setattr Scene ''camera'' Py_none];
         t = t @ map (\<lambda>obj. Invoke ''scene.objects.unlink'' [Py_ref (Scene_object obj)] [])
                   (scene_objects E);
         t = t @ [Setattr Scene_render ''engine'' (Py_str ''CYCLES'')];
         t = t @ [Setattr Scene_render ''resolution_percentage'' (Py_float (Float_lit ''100.0''))];
         t = t @ (if truthy_str render_path
                  then [Setattr Scene_render ''filepath'' (str_val render_path)] else []);
         t = t @ (if truthy_int samples
                  then [Setattr Scene_cycles ''samples'' (int_val samples)] else []);
         t = t @ [Setattr Image_settings ''color_mode'' (Py_str ''RGBA'')];
         t = t @ [Setattr Scene_cycles ''film_transparent'' (Py_bool True)];
         t = t @ (if truthy_int size_x
                  then [Setattr Scene_render ''resolution_x'' (int_val size_x)] else []);
         t = t @ (if truthy_int size_y
                  then [Setattr Scene_render ''resolution_y'' (int_val size_y)] else []);
         t = t @ [Invoke ''bpy.data.cameras.new'' [Py_str ''MyCam''] []];
         t = t @ [Invoke ''bpy.data.objects.new'' []
                    [(''name'', Py_str ''MyCam''), (''object_data'', Py_ref Cam_data)]];
         t = t @ [Invoke ''scene.objects.link'' [Py_ref Cam_ob] []];
         t = t @ [Setattr Scene ''camera'' (Py_ref Cam_ob)];
         t = t @ [Setattr Cam_ob ''rotation_euler''
                    (Py_tuple [Py_float (Radians (Float_lit ''60.0'')),
                               Py_float (Radians (Float_lit ''0.0'')),
                               Py_float (Radians (Float_lit ''170.0''))])];
         t = t @ [Invoke ''bpy.ops.import_scene.fbx'' []
                    [(''axis_forward'', Py_str ''Y''),
                     (''axis_up'', Py_str ''Z''),
                     (''global_scale'', Py_float (Float_lit ''0.001'')),
                     (''filepath'', str_val fbx_path),
                     (''use_alpha_decals'', Py_bool True),
                     (''decal_offset'', Py_float (Float_lit ''0.1''))]];
         angle = cam_data_angle E;
         t = t @ [Setattr Cam_data ''angle'' (Py_float (Fmul angle (Float_lit ''0.95'')))];
         t = t @ [Invoke ''bpy.ops.view3d.camera_to_view_selected'' [] []];
         t = t @ [Setattr Cam_data ''angle'' (Py_float angle)];
         t = t @ (if truthy_str hdr_path then render_hdr_set Scene hdr_path else [])
     in if truthy_str save_path then
          (let t = t @ [Invoke ''open'' [str_val save_path, Py_str ''w''] []];
               (t, ok) =
                 (if open_w E (the save_path)
                  then (t @ [Invoke ''f.close'' [] []], Some True)
                  else (t @ [Print (Cannot_save_to_path (the save_path)), Print_exc], None))
           in case ok of
                None \<Rightarrow> (t, Raised UnboundLocalError)
              | Some b \<Rightarrow>
                  (let t = t @ (if b then [Invoke ''bpy.ops.wm.save_as_mainfile'' []
                                             [(''filepath'', str_val save_path)]] else [])
                   in (t @ (if truthy_str render_path
                            then [Invoke ''bpy.ops.render.render'' [] [(''write_still'', Py_bool True)]]
                            else []), Returned)))
        else (t @ (if truthy_str render_path
                   then [Invoke ''bpy.ops.render.render'' [] [(''write_still'', Py_bool True)]]
                   else []), Returned))"

subsection \<open>\<^verbatim>\<open>main\<close> (lines 151 to 202)\<close>

text \<open>\<^verbatim>\<open>argv.index(x)\<close>, used only where \<open>x\<close> occurs in the list.\<close>

fun list_index :: "'a list \<Rightarrow> 'a \<Rightarrow> nat" where
  "list_index [] x = 0"
| "list_index (y # ys) x = (if y = x then 0 else Suc (list_index ys x))"

text \<open>The local \<^verbatim>\<open>argv\<close> of lines 155 to 160: all arguments after the first \<^verbatim>\<open>--\<close>.\<close>

definition script_argv :: "string list \<Rightarrow> string list" where
  "script_argv sys_argv =
    (if ''--'' \<notin> set sys_argv then []
     else drop (list_index sys_argv ''--'' + 1) sys_argv)"

definition main :: "'o env \<Rightarrow> string list \<Rightarrow> 'o call list \<times> outcome" where
  "main E sys_argv =
    (let argv = script_argv sys_argv
     in case parse_args E argv of
          None \<Rightarrow> ([], Raised SystemExit)
        | Some a \<Rightarrow>
            if argv = [] then ([Print_help], Returned)
            else if \<not> truthy_str (args_fbx_path a)
            then ([Print Error_fbx_path_not_given, Print_help], Returned)
            else (case render E (args_fbx_path a) (args_hdr_path a)
                         (args_size_x a) (args_size_y a) (args_samples a)
                         (args_save_path a) (args_render_path a) of
                    (t, Raised e) \<Rightarrow> (t, Raised e)
                  | (t, Returned) \<Rightarrow> (t @ [Print Batch_job_finished], Returned)))"

section \<open>Reading a run\<close>

text \<open>The assignments to attribute \<open>a\<close> of \<open>r\<close>, and the calls of \<open>f\<close>, among the entries.\<close>

fun sets_attr :: "'o ref \<Rightarrow> string \<Rightarrow> 'o call \<Rightarrow> bool" where
  "sets_attr r a (Setattr r' a' v) = (r' = r \<and> a' = a)"
| "sets_attr r a (Invoke f xs kw) = False"
| "sets_attr r a (Print m) = False"
| "sets_attr r a Print_help = False"
| "sets_attr r a Print_exc = False"

fun invokes :: "string \<Rightarrow> 'o call \<Rightarrow> bool" where
  "invokes f (Invoke g xs kw) = (g = f)"
| "invokes f (Setattr r a v) = False"
| "invokes f (Print m) = False"
| "invokes f Print_help = False"
| "invokes f Print_exc = False"

text \<open>
  The entries that belong to saving (lines 133 to 145, on its success path) and to
  rendering (lines 91 to 92 and 147 to 148).
\<close>

definition in_save_step :: "'o call \<Rightarrow> bool" where
  "in_save_step c =
     (invokes ''open'' c \<or> invokes ''f.close'' c \<or> invokes ''bpy.ops.wm.save_as_mainfile'' c)"

definition in_render_step :: "'o call \<Rightarrow> bool" where
  "in_render_step c =
     (sets_attr Scene_render ''filepath'' c \<or> invokes ''bpy.ops.render.render'' c)"

subsection \<open>The steps of \<^verbatim>\<open>render\<close>, one list of entries each\<close>

text \<open>Lines 83 to 85: unset the camera, unlink every object the iteration yields.\<close>

definition step_clear :: "'o env \<Rightarrow> 'o call list" where
  "step_clear E =
     Setattr Scene ''camera'' Py_none #
     map (\<lambda>obj. Invoke ''scene.objects.unlink'' [Py_ref (Scene_object obj)] []) (scene_objects E)"

text \<open>Lines 87 to 103: the render engine and its settings.\<close>

definition step_settings ::
  "int option \<Rightarrow> int option \<Rightarrow> int option \<Rightarrow> string option \<Rightarrow> 'o call list" where
  "step_settings size_x size_y samples render_path =
     [Setattr Scene_render ''engine'' (Py_str ''CYCLES''),
      Setattr Scene_render ''resolution_percentage'' (Py_float (Float_lit ''100.0''))] @
     (if truthy_str render_path
      then [Setattr Scene_render ''filepath'' (str_val render_path)] else []) @
     (if truthy_int samples then [Setattr Scene_cycles ''samples'' (int_val samples)] else []) @
     [Setattr Image_settings ''color_mode'' (Py_str ''RGBA''),
      Setattr Scene_cycles ''film_transparent'' (Py_bool True)] @
     (if truthy_int size_x then [Setattr Scene_render ''resolution_x'' (int_val size_x)] else []) @
     (if truthy_int size_y then [Setattr Scene_render ''resolution_y'' (int_val size_y)] else [])"

text \<open>Lines 106 to 112: the camera, created, linked, made active and rotated.\<close>

definition step_camera :: "'o call list" where
  "step_camera =
     [Invoke ''bpy.data.cameras.new'' [Py_str ''MyCam''] [],
      Invoke ''bpy.data.objects.new'' []
        [(''name'', Py_str ''MyCam''), (''object_data'', Py_ref Cam_data)],
      Invoke ''scene.objects.link'' [Py_ref Cam_ob] [],
      Setattr Scene ''camera'' (Py_ref Cam_ob),
      Setattr Cam_ob ''rotation_euler''
        (Py_tuple [Py_float (Radians (Float_lit ''60.0'')),
                   Py_float (Radians (Float_lit ''0.0'')),
                   Py_float (Radians (Float_lit ''170.0''))])]"

text \<open>Lines 115 to 120: the import.\<close>

definition step_import :: "string option \<Rightarrow> 'o call list" where
  "step_import fbx_path =
     [Invoke ''bpy.ops.import_scene.fbx'' []
        [(''axis_forward'', Py_str ''Y''),
         (''axis_up'', Py_str ''Z''),
         (''global_scale'', Py_float (Float_lit ''0.001'')),
         (''filepath'', str_val fbx_path),
         (''use_alpha_decals'', Py_bool True),
         (''decal_offset'', Py_float (Float_lit ''0.1''))]]"

text \<open>Lines 123 to 126: framing the camera to the selection.\<close>

definition step_frame :: "'o env \<Rightarrow> 'o call list" where
  "step_frame E =
     [Setattr Cam_data ''angle'' (Py_float (Fmul (cam_data_angle E) (Float_lit ''0.95''))),
      Invoke ''bpy.ops.view3d.camera_to_view_selected'' [] [],
      Setattr Cam_data ''angle'' (Py_float (cam_data_angle E))]"

text \<open>Lines 133 to 145 when the path opens: the probe, then the host's save.\<close>

definition step_save :: "string option \<Rightarrow> 'o call list" where
  "step_save save_path =
     [Invoke ''open'' [str_val save_path, Py_str ''w''] [],
      Invoke ''f.close'' [] [],
      Invoke ''bpy.ops.wm.save_as_mainfile'' [] [(''filepath'', str_val save_path)]]"

text \<open>Lines 133 to 142 when the path does not open: the probe and the two reports.\<close>

definition save_failed :: "string option \<Rightarrow> 'o call list" where
  "save_failed save_path =
     [Invoke ''open'' [str_val save_path, Py_str ''w''] [],
      Print (Cannot_save_to_path (the save_path)),
      Print_exc]"

text \<open>Line 148: the render.\<close>

definition step_render :: "'o call list" where
  "step_render = [Invoke ''bpy.ops.render.render'' [] [(''write_still'', Py_bool True)]]"

text \<open>
  The order the specification gives: clear, settings, camera, import, framing, then
  lighting, saving and rendering, each of the last three when its path is given.
\<close>

definition fixed_order ::
  "'o env \<Rightarrow> string option \<Rightarrow> string option \<Rightarrow> int option \<Rightarrow> int option \<Rightarrow> int option \<Rightarrow>
   string option \<Rightarrow> string option \<Rightarrow> 'o call list" where
  "fixed_order E fbx_path hdr_path size_x size_y samples save_path render_path =
     step_clear E @ step_settings size_x size_y samples render_path @ step_camera @
     step_import fbx_path @ step_frame E @
     (if truthy_str hdr_path then render_hdr_set Scene hdr_path else []) @
     (if truthy_str save_path then step_save save_path else []) @
     (if truthy_str render_path then step_render else [])"

section \<open>The usage example of the script's header\<close>

text \<open>
  Lines 28 to 37 of the source give a command line. \<open>usage_parse_args\<close> tabulates what
  \<^verbatim>\<open>argparse\<close> returns for it, for the same line without \<^verbatim>\<open>--save\<close> or without
  \<^verbatim>\<open>--render\<close>, and for no arguments at all (every option \<^verbatim>\<open>None\<close>); other command
  lines are not tabulated and nothing below uses them. The scene is the host's start-up
  scene. In \<open>usage_env\<close> every path
  opens for writing, in \<open>readonly_env\<close> none does.
\<close>

definition blender_argv :: "string list \<Rightarrow> string list" where
  "blender_argv options =
     [''blender'', ''--background'', ''-noaudio'', ''--factory-startup'',
      ''--python'', ''pyfbx_render.py'', ''--''] @ options"

definition usage_options :: "string list" where
  "usage_options =
     [''--fbx=/path/to/some.fbx'', ''--hdr=/path/to/image.hdr'',
      ''--width=800'', ''--height=800'', ''--samples=80'']"

definition usage_argv :: "string list" where
  "usage_argv =
     blender_argv (usage_options @
       [''--render=/tmp/render_out_image'', ''--save=/tmp/blend_out.blend''])"

definition usage_argv_no_save :: "string list" where
  "usage_argv_no_save = blender_argv (usage_options @ [''--render=/tmp/render_out_image''])"

definition usage_argv_no_render :: "string list" where
  "usage_argv_no_render = blender_argv (usage_options @ [''--save=/tmp/blend_out.blend''])"

definition usage_args :: args where
  "usage_args =
     \<lparr>args_fbx_path = Some ''/path/to/some.fbx'',
      args_hdr_path = Some ''/path/to/image.hdr'',
      args_save_path = Some ''/tmp/blend_out.blend'',
      args_render_path = Some ''/tmp/render_out_image'',
      args_size_x = Some 800,
      args_size_y = Some 800,
      args_samples = Some 80\<rparr>"

definition usage_parse_args :: "string list \<Rightarrow> args option" where
  "usage_parse_args argv =
     (if argv = [] then
        Some \<lparr>args_fbx_path = None, args_hdr_path = None, args_save_path = None,
              args_render_path = None, args_size_x = None, args_size_y = None,
              args_samples = None\<rparr>
      else if argv = script_argv usage_argv then Some usage_args
      else if argv = script_argv usage_argv_no_save
      then Some (usage_args\<lparr>args_save_path := None\<rparr>)
      else if argv = script_argv usage_argv_no_render
      then Some (usage_args\<lparr>args_render_path := None\<rparr>)
      else None)"

definition usage_env :: "string env" where
  "usage_env =
     \<lparr>scene_objects = [''Camera'', ''Cube'', ''Lamp''],
      cam_data_angle = Float_lit ''0.8575'',
      open_w = (\<lambda>p. True),
      parse_args = usage_parse_args\<rparr>"

definition readonly_env :: "string env" where
  "readonly_env = usage_env\<lparr>open_w := (\<lambda>p. False)\<rparr>"

section \<open>Properties\<close>

subsection \<open>Auxiliary facts\<close>

text \<open>
  The run of \<^verbatim>\<open>render\<close> in closed form, on every input: the steps in source order,
  and the two ways the save block can end.
\<close>

lemma render_steps:
  "render E fbx_path hdr_path size_x size_y samples save_path render_path =
    (step_clear E @ step_settings size_x size_y samples render_path @ step_camera @
     step_import fbx_path @ step_frame E @
     (if truthy_str hdr_path then render_hdr_set Scene hdr_path else []) @
     (if truthy_str save_path
      then (if open_w E (the save_path)
            then step_save save_path @ (if truthy_str render_path then step_render else [])
            else save_failed save_path)
      else (if truthy_str render_path then step_render else [])),
     if truthy_str save_path \<and> \<not> open_w E (the save_path)
     then Raised UnboundLocalError else Returned)"
  unfolding render_def Let_def step_clear_def step_settings_def step_camera_def
    step_import_def step_frame_def step_save_def step_render_def save_failed_def
  by simp

lemmas step_defs =
  step_clear_def step_settings_def step_camera_def step_import_def step_frame_def
  step_save_def step_render_def save_failed_def render_hdr_set_def

lemma filter_sets_attr_unlink:
  "filter (sets_attr r a) (map (\<lambda>obj. Invoke f [Py_ref (Scene_object obj)] []) objs) = []"
  by (induction objs) simp_all

lemma filter_invokes_unlink:
  "f \<noteq> g \<Longrightarrow>
   filter (invokes g) (map (\<lambda>obj. Invoke f [Py_ref (Scene_object obj)] []) objs) = []"
  by (induction objs) simp_all

text \<open>
  A run of \<^verbatim>\<open>main\<close> that reaches \<^verbatim>\<open>render\<close>: the flags parse, some argument follows
  \<^verbatim>\<open>--\<close>, and the FBX path is given.
\<close>
lemma main_render:
  assumes "parse_args E (script_argv sys_argv) = Some a"
    and "script_argv sys_argv \<noteq> []"
    and "truthy_str (args_fbx_path a)"
  shows "main E sys_argv =
    (fst (render E (args_fbx_path a) (args_hdr_path a) (args_size_x a) (args_size_y a)
            (args_samples a) (args_save_path a) (args_render_path a)) @
     (if truthy_str (args_save_path a) \<and> \<not> open_w E (the (args_save_path a))
      then [] else [Print Batch_job_finished]),
     if truthy_str (args_save_path a) \<and> \<not> open_w E (the (args_save_path a))
     then Raised UnboundLocalError else Returned)"
  using assms by (simp add: main_def render_steps)

text \<open>The usage example, evaluated.\<close>

lemma usage_script_argv:
  "script_argv usage_argv =
     usage_options @ [''--render=/tmp/render_out_image'', ''--save=/tmp/blend_out.blend'']"
  "script_argv usage_argv_no_save = usage_options @ [''--render=/tmp/render_out_image'']"
  "script_argv usage_argv_no_render = usage_options @ [''--save=/tmp/blend_out.blend'']"
  by (simp_all add: script_argv_def usage_argv_def usage_argv_no_save_def
      usage_argv_no_render_def blender_argv_def)

lemma usage_parse:
  "parse_args usage_env (script_argv usage_argv) = Some usage_args"
  "parse_args usage_env (script_argv usage_argv_no_save)
     = Some (usage_args\<lparr>args_save_path := None\<rparr>)"
  "parse_args usage_env (script_argv usage_argv_no_render)
     = Some (usage_args\<lparr>args_render_path := None\<rparr>)"
  "parse_args readonly_env = parse_args usage_env"
  "script_argv usage_argv \<noteq> []"
  "script_argv usage_argv_no_save \<noteq> []"
  "script_argv usage_argv_no_render \<noteq> []"
  by (simp_all add: usage_env_def readonly_env_def usage_parse_args_def usage_script_argv
      usage_options_def)

text \<open>The calls of the host's save and of the host's render in a run of \<^verbatim>\<open>render\<close>.\<close>

lemma render_save_calls:
  "filter (invokes ''bpy.ops.wm.save_as_mainfile'')
     (fst (render E fbx_path hdr_path size_x size_y samples save_path render_path))
   = (if truthy_str save_path \<and> open_w E (the save_path)
      then [Invoke ''bpy.ops.wm.save_as_mainfile'' [] [(''filepath'', str_val save_path)]]
      else [])"
  by (simp add: render_steps step_defs filter_invokes_unlink)

lemma render_render_calls:
  "filter (invokes ''bpy.ops.render.render'')
     (fst (render E fbx_path hdr_path size_x size_y samples save_path render_path))
   = (if truthy_str render_path \<and> (\<not> truthy_str save_path \<or> open_w E (the save_path))
      then [Invoke ''bpy.ops.render.render'' [] [(''write_still'', Py_bool True)]]
      else [])"
  by (simp add: render_steps step_defs filter_invokes_unlink)

text \<open>
  Leaving out the save path, or the render path, removes the entries of that step from
  the run of \<^verbatim>\<open>render\<close> and nothing else, as long as the save path opens.
\<close>

lemma in_save_step_simps:
  "in_save_step (Setattr r a v) = False"
  "in_save_step (Invoke f xs kw) =
     (f = ''open'' \<or> f = ''f.close'' \<or> f = ''bpy.ops.wm.save_as_mainfile'')"
  "in_save_step (Print m) = False"
  "in_save_step Print_help = False"
  "in_save_step Print_exc = False"
  by (auto simp add: in_save_step_def)

lemma in_render_step_simps:
  "in_render_step (Setattr r a v) = (r = Scene_render \<and> a = ''filepath'')"
  "in_render_step (Invoke f xs kw) = (f = ''bpy.ops.render.render'')"
  "in_render_step (Print m) = False"
  "in_render_step Print_help = False"
  "in_render_step Print_exc = False"
  by (auto simp add: in_render_step_def)

lemma filter_not_save_unlink:
  "filter (\<lambda>c. \<not> in_save_step c)
     (map (\<lambda>obj. Invoke ''scene.objects.unlink'' [Py_ref (Scene_object obj)] []) objs)
   = map (\<lambda>obj. Invoke ''scene.objects.unlink'' [Py_ref (Scene_object obj)] []) objs"
  by (induction objs) (simp_all add: in_save_step_simps)

lemma filter_not_render_unlink:
  "filter (\<lambda>c. \<not> in_render_step c)
     (map (\<lambda>obj. Invoke ''scene.objects.unlink'' [Py_ref (Scene_object obj)] []) objs)
   = map (\<lambda>obj. Invoke ''scene.objects.unlink'' [Py_ref (Scene_object obj)] []) objs"
  by (induction objs) (simp_all add: in_render_step_simps)

lemma render_without_save:
  assumes "\<not> truthy_str save_path \<or> open_w E (the save_path)"
  shows "fst (render E fbx_path hdr_path size_x size_y samples None render_path)
    = filter (\<lambda>c. \<not> in_save_step c)
        (fst (render E fbx_path hdr_path size_x size_y samples save_path render_path))"
  using assms
  by (simp add: render_steps step_defs filter_not_save_unlink in_save_step_simps)

lemma render_without_render:
  assumes "\<not> truthy_str save_path \<or> open_w E (the save_path)"
  shows "fst (render E fbx_path hdr_path size_x size_y samples save_path None)
    = filter (\<lambda>c. \<not> in_render_step c)
        (fst (render E fbx_path hdr_path size_x size_y samples save_path render_path))"
  using assms
  by (simp add: render_steps step_defs filter_not_render_unlink in_render_step_simps)

subsection \<open>Alpha output\<close>

text \<open>
  Claim C4. On every invocation of \<^verbatim>\<open>render\<close>, whatever the arguments, the run assigns
  \<^verbatim>\<open>render.image_settings.color_mode\<close> exactly once, the value \<^verbatim>\<open>'RGBA'\<close>, and
  \<^verbatim>\<open>cycles.film_transparent\<close> exactly once, the value \<^verbatim>\<open>True\<close>: both are literal
  constants that no argument reaches.
\<close>

theorem render_alpha_unconditional:
  "filter (sets_attr Image_settings ''color_mode'')
     (fst (render E fbx_path hdr_path size_x size_y samples save_path render_path))
   = [Setattr Image_settings ''color_mode'' (Py_str ''RGBA'')] \<and>
   filter (sets_attr Scene_cycles ''film_transparent'')
     (fst (render E fbx_path hdr_path size_x size_y samples save_path render_path))
   = [Setattr Scene_cycles ''film_transparent'' (Py_bool True)]"
  by (simp add: render_steps step_defs filter_sets_attr_unlink)

subsection \<open>Camera rotation\<close>

text \<open>
  Claim C5. On every invocation of \<^verbatim>\<open>render\<close> the run assigns \<^verbatim>\<open>cam_ob.rotation_euler\<close>
  exactly once, and the value is the triple of \<^verbatim>\<open>radians(60.0)\<close>, \<^verbatim>\<open>radians(0.0)\<close>
  and \<^verbatim>\<open>radians(170.0)\<close>: the statement holds for all arguments, so no command-line
  flag reaches the rotation.
\<close>

theorem render_camera_rotation_fixed:
  "filter (sets_attr Cam_ob ''rotation_euler'')
     (fst (render E fbx_path hdr_path size_x size_y samples save_path render_path))
   = [Setattr Cam_ob ''rotation_euler''
        (Py_tuple [Py_float (Radians (Float_lit ''60.0'')),
                   Py_float (Radians (Float_lit ''0.0'')),
                   Py_float (Radians (Float_lit ''170.0''))])]"
  by (simp add: render_steps step_defs filter_sets_attr_unlink)

subsection \<open>Framing\<close>

text \<open>
  Claim C9. With \<open>a\<close> the value \<^verbatim>\<open>render\<close> reads from \<^verbatim>\<open>cam_data.angle\<close> before
  framing, the run assigns \<^verbatim>\<open>cam_data.angle\<close> exactly twice: first \<open>a\<close> scaled by
  \<^verbatim>\<open>0.95\<close>, then, after the single call of \<^verbatim>\<open>camera_to_view_selected\<close>, the saved \<open>a\<close>
  itself. The last value the script gives the camera angle is therefore the one it had
  before the framing step, whatever the arguments and whatever comes after.
\<close>

theorem framing_restores_angle:
  "filter (\<lambda>c. sets_attr Cam_data ''angle'' c \<or>
                 invokes ''bpy.ops.view3d.camera_to_view_selected'' c)
     (fst (render E fbx_path hdr_path size_x size_y samples save_path render_path))
   = [Setattr Cam_data ''angle'' (Py_float (Fmul (cam_data_angle E) (Float_lit ''0.95''))),
      Invoke ''bpy.ops.view3d.camera_to_view_selected'' [] [],
      Setattr Cam_data ''angle'' (Py_float (cam_data_angle E))]"
proof -
  have unlink:
    "filter (\<lambda>c. sets_attr Cam_data ''angle'' c \<or>
                   invokes ''bpy.ops.view3d.camera_to_view_selected'' c)
       (map (\<lambda>obj. Invoke ''scene.objects.unlink'' [Py_ref (Scene_object obj)] []) objs) = []"
    for objs :: "'a list"
    by (induction objs) simp_all
  show ?thesis
    by (simp add: render_steps step_defs unlink)
qed

subsection \<open>Zero and empty arguments\<close>

text \<open>
  Claim C10. A width, height or sample count of \<open>0\<close> gives the same run of \<^verbatim>\<open>render\<close>
  as the omitted argument (\<^verbatim>\<open>None\<close>), and so does an empty render path; in each case
  the run makes no assignment to \<^verbatim>\<open>resolution_x\<close>, \<^verbatim>\<open>resolution_y\<close>,
  \<^verbatim>\<open>cycles.samples\<close> or \<^verbatim>\<open>render.filepath\<close> respectively, so the scene keeps the
  value it had.
\<close>

theorem zero_same_as_omitted:
  "render E fbx_path hdr_path (Some 0) size_y samples save_path render_path
     = render E fbx_path hdr_path None size_y samples save_path render_path \<and>
   render E fbx_path hdr_path size_x (Some 0) samples save_path render_path
     = render E fbx_path hdr_path size_x None samples save_path render_path \<and>
   render E fbx_path hdr_path size_x size_y (Some 0) save_path render_path
     = render E fbx_path hdr_path size_x size_y None save_path render_path \<and>
   render E fbx_path hdr_path size_x size_y samples save_path (Some [])
     = render E fbx_path hdr_path size_x size_y samples save_path None \<and>
   filter (sets_attr Scene_render ''resolution_x'')
     (fst (render E fbx_path hdr_path (Some 0) size_y samples save_path render_path)) = [] \<and>
   filter (sets_attr Scene_render ''resolution_y'')
     (fst (render E fbx_path hdr_path size_x (Some 0) samples save_path render_path)) = [] \<and>
   filter (sets_attr Scene_cycles ''samples'')
     (fst (render E fbx_path hdr_path size_x size_y (Some 0) save_path render_path)) = [] \<and>
   filter (sets_attr Scene_render ''filepath'')
     (fst (render E fbx_path hdr_path size_x size_y samples save_path (Some []))) = []"
  by (simp add: render_steps step_defs filter_sets_attr_unlink)

subsection \<open>World lighting constants\<close>

text \<open>
  Claim C3. When the HDR path is given (a non-empty string, which is what the test
  \<^verbatim>\<open>if hdr_path\<close> lets through), the run assigns the \<^verbatim>\<open>default_value\<close> of the Background
  node's \<^verbatim>\<open>Strength\<close> input exactly once, the literal \<^verbatim>\<open>1.5\<close>; the world's
  \<^verbatim>\<open>cycles.sample_map_resolution\<close> exactly once, the literal \<^verbatim>\<open>512\<close>; and
  \<^verbatim>\<open>cycles.sample_as_light\<close> exactly once, \<^verbatim>\<open>True\<close>.
\<close>

theorem hdr_strength_and_resolution:
  assumes "truthy_str hdr_path"
  shows
  "filter (sets_attr (Node_input Node_bg ''Strength'') ''default_value'')
     (fst (render E fbx_path hdr_path size_x size_y samples save_path render_path))
   = [Setattr (Node_input Node_bg ''Strength'') ''default_value''
        (Py_float (Float_lit ''1.5''))] \<and>
   filter (sets_attr World_cycles ''sample_map_resolution'')
     (fst (render E fbx_path hdr_path size_x size_y samples save_path render_path))
   = [Setattr World_cycles ''sample_map_resolution'' (Py_int 512)] \<and>
   filter (sets_attr World_cycles ''sample_as_light'')
     (fst (render E fbx_path hdr_path size_x size_y samples save_path render_path))
   = [Setattr World_cycles ''sample_as_light'' (Py_bool True)]"
  using assms by (simp add: render_steps step_defs filter_sets_attr_unlink)

theorem hdr_strength_and_resolution_witness:
  "truthy_str (Some ''/path/to/image.hdr'') \<and>
   filter (sets_attr (Node_input Node_bg ''Strength'') ''default_value'')
     (fst (render usage_env (Some ''/path/to/some.fbx'') (Some ''/path/to/image.hdr'')
            (Some 800) (Some 800) (Some 80) None None))
   = [Setattr (Node_input Node_bg ''Strength'') ''default_value''
        (Py_float (Float_lit ''1.5''))] \<and>
   filter (sets_attr World_cycles ''sample_map_resolution'')
     (fst (render usage_env (Some ''/path/to/some.fbx'') (Some ''/path/to/image.hdr'')
            (Some 800) (Some 800) (Some 80) None None))
   = [Setattr World_cycles ''sample_map_resolution'' (Py_int 512)] \<and>
   filter (sets_attr World_cycles ''sample_as_light'')
     (fst (render usage_env (Some ''/path/to/some.fbx'') (Some ''/path/to/image.hdr'')
            (Some 800) (Some 800) (Some 80) None None))
   = [Setattr World_cycles ''sample_as_light'' (Py_bool True)]"
  using hdr_strength_and_resolution [of "Some ''/path/to/image.hdr''" usage_env
      "Some ''/path/to/some.fbx''" "Some 800" "Some 800" "Some 80" None None]
  by simp

subsection \<open>The import\<close>

text \<open>
  Claim C6. Every run of \<^verbatim>\<open>render\<close> calls \<^verbatim>\<open>bpy.ops.import_scene.fbx\<close> exactly once,
  with \<^verbatim>\<open>axis_forward='Y'\<close>, \<^verbatim>\<open>axis_up='Z'\<close>, \<^verbatim>\<open>global_scale=0.001\<close>,
  \<^verbatim>\<open>use_alpha_decals=True\<close>, \<^verbatim>\<open>decal_offset=0.1\<close> and its own \<^verbatim>\<open>fbx_path\<close> as
  \<^verbatim>\<open>filepath\<close>; and every run of \<^verbatim>\<open>main\<close> whose flags parse and give an FBX path
  makes that call exactly once with the \<^verbatim>\<open>--fbx\<close> argument as \<^verbatim>\<open>filepath\<close>. (A run of
  \<^verbatim>\<open>main\<close> without \<^verbatim>\<open>--fbx\<close> returns before \<^verbatim>\<open>render\<close> and has no model to import.)
\<close>

theorem fbx_imported_once:
  "filter (invokes ''bpy.ops.import_scene.fbx'')
     (fst (render E fbx_path hdr_path size_x size_y samples save_path render_path))
   = [Invoke ''bpy.ops.import_scene.fbx'' []
        [(''axis_forward'', Py_str ''Y''),
         (''axis_up'', Py_str ''Z''),
         (''global_scale'', Py_float (Float_lit ''0.001'')),
         (''filepath'', str_val fbx_path),
         (''use_alpha_decals'', Py_bool True),
         (''decal_offset'', Py_float (Float_lit ''0.1''))]] \<and>
   (parse_args E (script_argv sys_argv) = Some a \<and> script_argv sys_argv \<noteq> [] \<and>
    truthy_str (args_fbx_path a) \<longrightarrow>
    filter (invokes ''bpy.ops.import_scene.fbx'') (fst (main E sys_argv))
    = [Invoke ''bpy.ops.import_scene.fbx'' []
        [(''axis_forward'', Py_str ''Y''),
         (''axis_up'', Py_str ''Z''),
         (''global_scale'', Py_float (Float_lit ''0.001'')),
         (''filepath'', Py_str (the (args_fbx_path a))),
         (''use_alpha_decals'', Py_bool True),
         (''decal_offset'', Py_float (Float_lit ''0.1''))]])"
proof -
  have r: "filter (invokes ''bpy.ops.import_scene.fbx'')
     (fst (render E f h x y s sp rp))
   = [Invoke ''bpy.ops.import_scene.fbx'' []
        [(''axis_forward'', Py_str ''Y''),
         (''axis_up'', Py_str ''Z''),
         (''global_scale'', Py_float (Float_lit ''0.001'')),
         (''filepath'', str_val f),
         (''use_alpha_decals'', Py_bool True),
         (''decal_offset'', Py_float (Float_lit ''0.1''))]]" for f h x y s sp rp
    by (simp add: render_steps step_defs filter_invokes_unlink)
  have v: "str_val (args_fbx_path a) = Py_str (the (args_fbx_path a))"
    if "truthy_str (args_fbx_path a)"
    using that by (cases "args_fbx_path a") simp_all
  show ?thesis
    by (simp add: main_render r v)
qed

theorem fbx_imported_once_witness:
  "filter (invokes ''bpy.ops.import_scene.fbx'') (fst (main usage_env usage_argv))
    = [Invoke ''bpy.ops.import_scene.fbx'' []
        [(''axis_forward'', Py_str ''Y''),
         (''axis_up'', Py_str ''Z''),
         (''global_scale'', Py_float (Float_lit ''0.001'')),
         (''filepath'', Py_str ''/path/to/some.fbx''),
         (''use_alpha_decals'', Py_bool True),
         (''decal_offset'', Py_float (Float_lit ''0.1''))]]"
  using fbx_imported_once [of usage_env None None None None None None None usage_argv usage_args]
  by (simp add: usage_parse usage_args_def)

subsection \<open>World lighting\<close>

text \<open>
  Claim C7. When the HDR path is given, the entries of the run that create a world,
  assign the scene's world, assign \<^verbatim>\<open>use_nodes\<close>, create a node, load an image, assign
  the Environment Texture node's image or projection, create a link, or assign the
  world's visibility to the camera are exactly these nine, in this order: a new world
  is created, it becomes the scene's world, \<^verbatim>\<open>use_nodes\<close> is set to \<^verbatim>\<open>True\<close>, an
  Environment Texture node is created, the image is loaded from the HDR path, it is
  assigned to the node, the projection is set to \<^verbatim>\<open>MIRROR_BALL\<close>, the node's
  \<^verbatim>\<open>Color\<close> output is linked to the Background node's \<^verbatim>\<open>Color\<close> input, and the world
  is made invisible to the camera. Each happens once, and nothing in the run overwrites
  the projection or the visibility afterwards.
\<close>

theorem hdr_lighting_built:
  assumes "truthy_str hdr_path"
  shows
  "filter (\<lambda>c. invokes ''bpy.data.worlds.new'' c \<or> sets_attr Scene ''world'' c \<or>
                 sets_attr World ''use_nodes'' c \<or> invokes ''nodes.new'' c \<or>
                 invokes ''bpy.data.images.load'' c \<or> sets_attr Node_env ''image'' c \<or>
                 sets_attr Node_env ''projection'' c \<or> invokes ''links.new'' c \<or>
                 sets_attr World_cycles_visibility ''camera'' c)
     (fst (render E fbx_path hdr_path size_x size_y samples save_path render_path))
   = [Invoke ''bpy.data.worlds.new'' [] [(''name'', Py_str ''World'')],
      Setattr Scene ''world'' (Py_ref World),
      Setattr World ''use_nodes'' (Py_bool True),
      Invoke ''nodes.new'' [] [(''type'', Py_str ''ShaderNodeTexEnvironment'')],
      Invoke ''bpy.data.images.load'' [Py_str (the hdr_path)] [],
      Setattr Node_env ''image'' (Py_ref Loaded_image),
      Setattr Node_env ''projection'' (Py_str ''MIRROR_BALL''),
      Invoke ''links.new''
        [Py_ref (Node_output Node_env ''Color''), Py_ref (Node_input Node_bg ''Color'')] [],
      Setattr World_cycles_visibility ''camera'' (Py_bool False)]"
proof -
  have unlink:
    "filter (\<lambda>c. invokes ''bpy.data.worlds.new'' c \<or> sets_attr Scene ''world'' c \<or>
                 sets_attr World ''use_nodes'' c \<or> invokes ''nodes.new'' c \<or>
                 invokes ''bpy.data.images.load'' c \<or> sets_attr Node_env ''image'' c \<or>
                 sets_attr Node_env ''projection'' c \<or> invokes ''links.new'' c \<or>
                 sets_attr World_cycles_visibility ''camera'' c)
       (map (\<lambda>obj. Invoke ''scene.objects.unlink'' [Py_ref (Scene_object obj)] []) objs) = []"
    for objs :: "'a list"
    by (induction objs) simp_all
  from assms obtain p where p: "hdr_path = Some p"
    by (cases hdr_path) simp_all
  show ?thesis
    using assms by (simp add: render_steps step_defs unlink p)
qed

theorem hdr_lighting_built_witness:
  "truthy_str (Some ''/path/to/image.hdr'') \<and>
   filter (\<lambda>c. invokes ''bpy.data.worlds.new'' c \<or> sets_attr Scene ''world'' c \<or>
                 sets_attr World ''use_nodes'' c \<or> invokes ''nodes.new'' c \<or>
                 invokes ''bpy.data.images.load'' c \<or> sets_attr Node_env ''image'' c \<or>
                 sets_attr Node_env ''projection'' c \<or> invokes ''links.new'' c \<or>
                 sets_attr World_cycles_visibility ''camera'' c)
     (fst (render usage_env (Some ''/path/to/some.fbx'') (Some ''/path/to/image.hdr'')
            None None None None None))
   = [Invoke ''bpy.data.worlds.new'' [] [(''name'', Py_str ''World'')],
      Setattr Scene ''world'' (Py_ref World),
      Setattr World ''use_nodes'' (Py_bool True),
      Invoke ''nodes.new'' [] [(''type'', Py_str ''ShaderNodeTexEnvironment'')],
      Invoke ''bpy.data.images.load'' [Py_str ''/path/to/image.hdr''] [],
      Setattr Node_env ''image'' (Py_ref Loaded_image),
      Setattr Node_env ''projection'' (Py_str ''MIRROR_BALL''),
      Invoke ''links.new''
        [Py_ref (Node_output Node_env ''Color''), Py_ref (Node_input Node_bg ''Color'')] [],
      Setattr World_cycles_visibility ''camera'' (Py_bool False)]"
  using hdr_lighting_built [of "Some ''/path/to/image.hdr''" usage_env
      "Some ''/path/to/some.fbx''" None None None None None]
  by simp

subsection \<open>A save path that does not open\<close>

text \<open>
  Claim C8. When a save path is given and \<^verbatim>\<open>open(save_path, 'w')\<close> raises, \<^verbatim>\<open>render\<close>
  ends in \<^verbatim>\<open>UnboundLocalError\<close>; its run ends with the attempt to open, the message
  naming the path and the traceback, and contains neither the host's save nor the
  render, whether or not a render path was given. A run of \<^verbatim>\<open>main\<close> that reaches
  \<^verbatim>\<open>render\<close> with such a path ends in the same exception, with nothing issued after
  the run of \<^verbatim>\<open>render\<close>.
\<close>

theorem save_open_failure_aborts:
  assumes "truthy_str save_path" and "\<not> open_w E (the save_path)"
  shows
  "snd (render E fbx_path hdr_path size_x size_y samples save_path render_path)
     = Raised UnboundLocalError \<and>
   (\<exists>pre. fst (render E fbx_path hdr_path size_x size_y samples save_path render_path)
     = pre @ [Invoke ''open'' [Py_str (the save_path), Py_str ''w''] [],
              Print (Cannot_save_to_path (the save_path)),
              Print_exc]) \<and>
   filter (invokes ''bpy.ops.wm.save_as_mainfile'')
     (fst (render E fbx_path hdr_path size_x size_y samples save_path render_path)) = [] \<and>
   filter (invokes ''bpy.ops.render.render'')
     (fst (render E fbx_path hdr_path size_x size_y samples save_path render_path)) = [] \<and>
   (parse_args E (script_argv sys_argv) = Some a \<and> script_argv sys_argv \<noteq> [] \<and>
    truthy_str (args_fbx_path a) \<and> args_save_path a = save_path \<longrightarrow>
    main E sys_argv =
      (fst (render E (args_fbx_path a) (args_hdr_path a) (args_size_x a) (args_size_y a)
              (args_samples a) (args_save_path a) (args_render_path a)),
       Raised UnboundLocalError))"
proof -
  from assms(1) obtain p where p: "save_path = Some p"
    by (cases save_path) simp_all
  have "snd (render E fbx_path hdr_path size_x size_y samples save_path render_path)
     = Raised UnboundLocalError"
    using assms by (simp add: render_steps)
  moreover have "\<exists>pre. fst (render E fbx_path hdr_path size_x size_y samples save_path render_path)
     = pre @ [Invoke ''open'' [Py_str (the save_path), Py_str ''w''] [],
              Print (Cannot_save_to_path (the save_path)),
              Print_exc]"
    using assms by (simp add: render_steps save_failed_def p)
  moreover have "filter (invokes ''bpy.ops.wm.save_as_mainfile'')
     (fst (render E fbx_path hdr_path size_x size_y samples save_path render_path)) = []"
    using assms by (simp add: render_steps step_defs filter_invokes_unlink)
  moreover have "filter (invokes ''bpy.ops.render.render'')
     (fst (render E fbx_path hdr_path size_x size_y samples save_path render_path)) = []"
    using assms by (simp add: render_steps step_defs filter_invokes_unlink)
  moreover have "parse_args E (script_argv sys_argv) = Some a \<and> script_argv sys_argv \<noteq> [] \<and>
    truthy_str (args_fbx_path a) \<and> args_save_path a = save_path \<longrightarrow>
    main E sys_argv =
      (fst (render E (args_fbx_path a) (args_hdr_path a) (args_size_x a) (args_size_y a)
              (args_samples a) (args_save_path a) (args_render_path a)),
       Raised UnboundLocalError)"
    using assms by (auto simp add: main_render)
  ultimately show ?thesis by blast
qed

theorem save_open_failure_aborts_witness:
  "truthy_str (Some ''/tmp/blend_out.blend'') \<and>
   \<not> open_w readonly_env ''/tmp/blend_out.blend'' \<and>
   snd (render readonly_env (Some ''/path/to/some.fbx'') None None None None
          (Some ''/tmp/blend_out.blend'') (Some ''/tmp/render_out_image''))
     = Raised UnboundLocalError \<and>
   filter (invokes ''bpy.ops.wm.save_as_mainfile'')
     (fst (render readonly_env (Some ''/path/to/some.fbx'') None None None None
          (Some ''/tmp/blend_out.blend'') (Some ''/tmp/render_out_image''))) = [] \<and>
   filter (invokes ''bpy.ops.render.render'')
     (fst (render readonly_env (Some ''/path/to/some.fbx'') None None None None
          (Some ''/tmp/blend_out.blend'') (Some ''/tmp/render_out_image''))) = [] \<and>
   snd (main readonly_env usage_argv) = Raised UnboundLocalError"
proof -
  have closed: "\<not> open_w readonly_env ''/tmp/blend_out.blend''"
    by (simp add: readonly_env_def usage_env_def)
  show ?thesis
    using closed save_open_failure_aborts [of "Some ''/tmp/blend_out.blend''" readonly_env
      "Some ''/path/to/some.fbx''" None None None None "Some ''/tmp/render_out_image''"
      usage_argv usage_args]
    by (simp add: usage_parse usage_args_def)
qed

subsection \<open>The order of the steps\<close>

text \<open>
  Claim C1, as amended. On every invocation of \<^verbatim>\<open>render\<close> in which the save path, when
  one is given, opens for writing, the run is exactly: the scene cleared, the render
  settings, the camera created and linked, the import, the framing, then the world
  lighting if an HDR path is given, the save if a save path is given, and the render if
  a render path is given, in this order and with nothing else; and \<^verbatim>\<open>render\<close> returns.
  The run is a function of the arguments, so no other order occurs.
\<close>

theorem render_fixed_order:
  assumes "\<not> truthy_str save_path \<or> open_w E (the save_path)"
  shows "render E fbx_path hdr_path size_x size_y samples save_path render_path
    = (fixed_order E fbx_path hdr_path size_x size_y samples save_path render_path, Returned)"
  using assms by (auto simp add: render_steps fixed_order_def)

theorem render_fixed_order_witness:
  "open_w usage_env ''/tmp/blend_out.blend'' \<and>
   render usage_env (Some ''/path/to/some.fbx'') (Some ''/path/to/image.hdr'')
     (Some 800) (Some 800) (Some 80)
     (Some ''/tmp/blend_out.blend'') (Some ''/tmp/render_out_image'')
   = (fixed_order usage_env (Some ''/path/to/some.fbx'') (Some ''/path/to/image.hdr'')
        (Some 800) (Some 800) (Some 80)
        (Some ''/tmp/blend_out.blend'') (Some ''/tmp/render_out_image''), Returned)"
proof -
  have opens: "open_w usage_env ''/tmp/blend_out.blend''"
    by (simp add: usage_env_def)
  show ?thesis
    using opens render_fixed_order [of "Some ''/tmp/blend_out.blend''" usage_env
      "Some ''/path/to/some.fbx''" "Some ''/path/to/image.hdr''" "Some 800" "Some 800"
      "Some 80" "Some ''/tmp/render_out_image''"]
    by simp
qed

text \<open>
  The claim as first stated fails where the save path does not open: with the usage
  example's arguments and no writable path, the run is not the fixed order, and it
  holds neither the host's save nor the render although both paths are given.
\<close>

theorem render_fixed_order_counterexample:
  "fst (render readonly_env (Some ''/path/to/some.fbx'') (Some ''/path/to/image.hdr'')
     (Some 800) (Some 800) (Some 80)
     (Some ''/tmp/blend_out.blend'') (Some ''/tmp/render_out_image''))
   \<noteq> fixed_order readonly_env (Some ''/path/to/some.fbx'') (Some ''/path/to/image.hdr'')
        (Some 800) (Some 800) (Some 80)
        (Some ''/tmp/blend_out.blend'') (Some ''/tmp/render_out_image'') \<and>
   filter (invokes ''bpy.ops.wm.save_as_mainfile'')
     (fst (render readonly_env (Some ''/path/to/some.fbx'') (Some ''/path/to/image.hdr'')
        (Some 800) (Some 800) (Some 80)
        (Some ''/tmp/blend_out.blend'') (Some ''/tmp/render_out_image''))) = [] \<and>
   filter (invokes ''bpy.ops.render.render'')
     (fst (render readonly_env (Some ''/path/to/some.fbx'') (Some ''/path/to/image.hdr'')
        (Some 800) (Some 800) (Some 80)
        (Some ''/tmp/blend_out.blend'') (Some ''/tmp/render_out_image''))) = []"
proof -
  have closed: "\<not> open_w readonly_env ''/tmp/blend_out.blend''"
    by (simp add: readonly_env_def usage_env_def)
  have differ: "save_failed (Some ''/tmp/blend_out.blend'')
      \<noteq> (step_save (Some ''/tmp/blend_out.blend'') @ step_render :: string call list)"
    by (simp add: save_failed_def step_save_def)
  have "fst (render readonly_env (Some ''/path/to/some.fbx'') (Some ''/path/to/image.hdr'')
     (Some 800) (Some 800) (Some 80)
     (Some ''/tmp/blend_out.blend'') (Some ''/tmp/render_out_image''))
   \<noteq> fixed_order readonly_env (Some ''/path/to/some.fbx'') (Some ''/path/to/image.hdr'')
        (Some 800) (Some 800) (Some 80)
        (Some ''/tmp/blend_out.blend'') (Some ''/tmp/render_out_image'')"
    using closed differ by (simp add: render_steps fixed_order_def)
  then show ?thesis
    using closed by (simp add: render_save_calls render_render_calls)
qed

subsection \<open>The save and render flags\<close>

text \<open>
  Claim C2, as amended. Take a run of \<^verbatim>\<open>main\<close> whose flags parse and give an FBX path.
  The run calls the host's save, once and with the \<^verbatim>\<open>--save\<close> argument, exactly when a
  non-empty \<^verbatim>\<open>--save\<close> path is given and that path opens for writing. If the save path,
  when given, opens for writing, then the run calls the host's render, once and with
  \<^verbatim>\<open>write_still=True\<close>, exactly when a non-empty \<^verbatim>\<open>--render\<close> path is given, and
  \<^verbatim>\<open>main\<close> returns; the command line without \<^verbatim>\<open>--save\<close> gives the same run less the
  entries of the save step, and the command line without \<^verbatim>\<open>--render\<close> gives the same
  run less the assignment of \<^verbatim>\<open>render.filepath\<close> and the render call.
\<close>

theorem main_save_render_flags:
  assumes "parse_args E (script_argv sys_argv) = Some a"
    and "script_argv sys_argv \<noteq> []"
    and "truthy_str (args_fbx_path a)"
    and "parse_args E (script_argv argv_no_save) = Some (a\<lparr>args_save_path := None\<rparr>)"
    and "script_argv argv_no_save \<noteq> []"
    and "parse_args E (script_argv argv_no_render) = Some (a\<lparr>args_render_path := None\<rparr>)"
    and "script_argv argv_no_render \<noteq> []"
  shows
  "filter (invokes ''bpy.ops.wm.save_as_mainfile'') (fst (main E sys_argv))
     = (if truthy_str (args_save_path a) \<and> open_w E (the (args_save_path a))
        then [Invoke ''bpy.ops.wm.save_as_mainfile'' []
                [(''filepath'', Py_str (the (args_save_path a)))]]
        else []) \<and>
   (\<not> truthy_str (args_save_path a) \<or> open_w E (the (args_save_path a)) \<longrightarrow>
      filter (invokes ''bpy.ops.render.render'') (fst (main E sys_argv))
        = (if truthy_str (args_render_path a)
           then [Invoke ''bpy.ops.render.render'' [] [(''write_still'', Py_bool True)]]
           else []) \<and>
      snd (main E sys_argv) = Returned \<and>
      fst (main E argv_no_save) = filter (\<lambda>c. \<not> in_save_step c) (fst (main E sys_argv)) \<and>
      fst (main E argv_no_render) = filter (\<lambda>c. \<not> in_render_step c) (fst (main E sys_argv)))"
proof -
  let ?run = "render E (args_fbx_path a) (args_hdr_path a) (args_size_x a) (args_size_y a)
                (args_samples a) (args_save_path a) (args_render_path a)"
  let ?ok = "\<not> truthy_str (args_save_path a) \<or> open_w E (the (args_save_path a))"
  have m: "fst (main E sys_argv) = fst ?run @ (if ?ok then [Print Batch_job_finished] else [])"
    and out: "snd (main E sys_argv) = (if ?ok then Returned else Raised UnboundLocalError)"
    using assms(1-3) by (simp_all add: main_render)
  have v: "str_val (args_save_path a) = Py_str (the (args_save_path a))"
    if "truthy_str (args_save_path a)"
    using that by (cases "args_save_path a") simp_all
  have saves: "filter (invokes ''bpy.ops.wm.save_as_mainfile'') (fst (main E sys_argv))
     = (if truthy_str (args_save_path a) \<and> open_w E (the (args_save_path a))
        then [Invoke ''bpy.ops.wm.save_as_mainfile'' []
                [(''filepath'', Py_str (the (args_save_path a)))]]
        else [])"
    by (simp add: m render_save_calls v)
  have renders: "filter (invokes ''bpy.ops.render.render'') (fst (main E sys_argv))
        = (if truthy_str (args_render_path a)
           then [Invoke ''bpy.ops.render.render'' [] [(''write_still'', Py_bool True)]]
           else [])" if ?ok
    using that by (simp add: m render_render_calls)
  have m_no_save: "fst (main E argv_no_save) =
      fst (render E (args_fbx_path a) (args_hdr_path a) (args_size_x a) (args_size_y a)
                (args_samples a) None (args_render_path a)) @ [Print Batch_job_finished]"
    using assms(3) main_render [OF assms(4) assms(5)] by simp
  have m_no_render: "fst (main E argv_no_render) =
      fst (render E (args_fbx_path a) (args_hdr_path a) (args_size_x a) (args_size_y a)
                (args_samples a) (args_save_path a) None) @ [Print Batch_job_finished]" if ?ok
    using that assms(3) main_render [OF assms(6) assms(7)] by auto
  have no_save: "fst (main E argv_no_save)
      = filter (\<lambda>c. \<not> in_save_step c) (fst (main E sys_argv))" if ?ok
    using that render_without_save [OF that]
    by (simp add: m m_no_save in_save_step_simps)
  have no_render: "fst (main E argv_no_render)
      = filter (\<lambda>c. \<not> in_render_step c) (fst (main E sys_argv))" if ?ok
    using that render_without_render [OF that]
    by (simp add: m m_no_render in_render_step_simps)
  show ?thesis
    using saves renders out no_save no_render by simp
qed

theorem main_save_render_flags_witness:
  "filter (invokes ''bpy.ops.wm.save_as_mainfile'') (fst (main usage_env usage_argv))
     = [Invoke ''bpy.ops.wm.save_as_mainfile'' []
          [(''filepath'', Py_str ''/tmp/blend_out.blend'')]] \<and>
   filter (invokes ''bpy.ops.render.render'') (fst (main usage_env usage_argv))
     = [Invoke ''bpy.ops.render.render'' [] [(''write_still'', Py_bool True)]] \<and>
   snd (main usage_env usage_argv) = Returned \<and>
   fst (main usage_env usage_argv_no_save)
     = filter (\<lambda>c. \<not> in_save_step c) (fst (main usage_env usage_argv)) \<and>
   fst (main usage_env usage_argv_no_render)
     = filter (\<lambda>c. \<not> in_render_step c) (fst (main usage_env usage_argv))"
proof -
  have opens: "open_w usage_env ''/tmp/blend_out.blend''"
    by (simp add: usage_env_def)
  show ?thesis
    using opens main_save_render_flags [of usage_env usage_argv usage_args
      usage_argv_no_save usage_argv_no_render]
    by (simp add: usage_parse usage_args_def)
qed

text \<open>
  The claim as first stated fails on the usage example when no path opens for writing:
  the flags are valid, \<^verbatim>\<open>--save\<close> and \<^verbatim>\<open>--render\<close> are both supplied, and the run
  calls neither the host's save nor the host's render.
\<close>

theorem main_save_render_iff_counterexample:
  "parse_args readonly_env (script_argv usage_argv) = Some usage_args \<and>
   args_save_path usage_args = Some ''/tmp/blend_out.blend'' \<and>
   args_render_path usage_args = Some ''/tmp/render_out_image'' \<and>
   filter (invokes ''bpy.ops.wm.save_as_mainfile'') (fst (main readonly_env usage_argv)) = [] \<and>
   filter (invokes ''bpy.ops.render.render'') (fst (main readonly_env usage_argv)) = []"
proof -
  have closed: "\<not> open_w readonly_env ''/tmp/blend_out.blend''"
    by (simp add: readonly_env_def usage_env_def)
  have parsed: "parse_args readonly_env (script_argv usage_argv) = Some usage_args"
    by (simp add: usage_parse)
  have given: "truthy_str (args_fbx_path usage_args)"
    "args_save_path usage_args = Some ''/tmp/blend_out.blend''"
    "args_render_path usage_args = Some ''/tmp/render_out_image''"
    by (simp_all add: usage_args_def)
  have "fst (main readonly_env usage_argv)
      = fst (render readonly_env (args_fbx_path usage_args) (args_hdr_path usage_args)
          (args_size_x usage_args) (args_size_y usage_args) (args_samples usage_args)
          (Some ''/tmp/blend_out.blend'') (Some ''/tmp/render_out_image''))"
    using closed given main_render [OF parsed usage_parse(5) given(1)] by simp
  then show ?thesis
    using closed parsed given by (simp add: render_save_calls render_render_calls)
qed

end
